theory Spec2Isabelle
  imports Main "HOL-Library.Char_ord" "HOL-Library.List_Lexorder" "HOL-Library.Multiset"
begin

section \<open>The JavaScript run-time pieces the examples rely on\<close>

text \<open>
  Arrays are objects: a variable holds a reference, and \<open>sort\<close>, \<open>reverse\<close> and
  \<open>push\<close> update the referenced array in place, while \<open>filter\<close> and an array
  literal allocate a new one. The store therefore maps addresses to array contents;
  \<open>fresh\<close> is the next unused address and \<open>console\<close> is the list of lines written
  by \<open>console.log\<close>, oldest first.

  Strings are modelled by \<open>string\<close>; a character stands for one code unit, so the
  model covers strings whose code units are below 256.
\<close>

type_synonym addr = nat

record 'a world =
  arrays :: "addr \<Rightarrow> 'a list"
  fresh :: addr
  console :: "string list"

text \<open>
  What a call can throw. \<open>TypeError\<close> is raised by the run time itself, here when a
  property of \<open>undefined\<close> is read; \<open>Error\<close> is an error object that a program
  raises with a \<open>throw\<close> statement of its own. The examples contain no \<open>throw\<close>.
\<close>

datatype error = TypeError | Error string

definition console_log :: "string \<Rightarrow> 'a world \<Rightarrow> 'a world" where
  "console_log line w = w\<lparr>console := console w @ [line]\<rparr>"

definition alloc :: "'a list \<Rightarrow> 'a world \<Rightarrow> addr \<times> 'a world" where
  "alloc xs w =
     (fresh w, w\<lparr>arrays := (arrays w)(fresh w := xs), fresh := Suc (fresh w)\<rparr>)"

text \<open>
  \<open>Array.prototype.sort\<close> without a comparator orders the elements by comparing
  them as strings, code unit by code unit, a proper prefix coming first. The result is
  the stable sort under that comparison; it is written here as an insertion sort.
\<close>

fun IsLessThan :: "string \<Rightarrow> string \<Rightarrow> bool" where
  "IsLessThan [] [] = False"
| "IsLessThan [] (y # ys) = True"
| "IsLessThan (x # xs) [] = False"
| "IsLessThan (x # xs) (y # ys) =
     (if x = y then IsLessThan xs ys else (of_char x :: nat) < of_char y)"

definition SortCompare :: "string \<Rightarrow> string \<Rightarrow> int" where
  "SortCompare x y = (if IsLessThan x y then - 1 else if IsLessThan y x then 1 else 0)"

fun insert_sorted :: "string \<Rightarrow> string list \<Rightarrow> string list" where
  "insert_sorted x [] = [x]"
| "insert_sorted x (y # ys) =
     (if SortCompare x y \<le> 0 then x # y # ys else y # insert_sorted x ys)"

definition sort_strings :: "string list \<Rightarrow> string list" where
  "sort_strings xs = foldr insert_sorted xs []"

definition Array_sort :: "addr \<Rightarrow> string world \<Rightarrow> addr \<times> string world" where
  "Array_sort a w = (a, w\<lparr>arrays := (arrays w)(a := sort_strings (arrays w a))\<rparr>)"

definition Array_reverse :: "addr \<Rightarrow> 'a world \<Rightarrow> addr \<times> 'a world" where
  "Array_reverse a w = (a, w\<lparr>arrays := (arrays w)(a := rev (arrays w a))\<rparr>)"

fun Array_join :: "string \<Rightarrow> string list \<Rightarrow> string" where
  "Array_join sep [] = []"
| "Array_join sep [x] = x"
| "Array_join sep (x # y # ys) = x @ sep @ Array_join sep (y # ys)"

definition Array_push :: "addr \<Rightarrow> 'a \<Rightarrow> 'a world \<Rightarrow> 'a world" where
  "Array_push a x w = w\<lparr>arrays := (arrays w)(a := arrays w a @ [x])\<rparr>"

definition Array_filter :: "addr \<Rightarrow> ('a \<Rightarrow> bool) \<Rightarrow> 'a world \<Rightarrow> addr \<times> 'a world" where
  "Array_filter a p w = alloc (filter p (arrays w a)) w"


section \<open>Strategy: the abstract example\<close>

text \<open>
  An object that implements an interface is a record of its methods. A method takes
  the state of the program and returns its result with the new state.
\<close>

record Strategy =
  doAlgorithm :: "addr \<Rightarrow> string world \<Rightarrow> addr \<times> string world"

definition ConcreteStrategyA :: Strategy where
  "ConcreteStrategyA = \<lparr>doAlgorithm = (\<lambda>data w. Array_sort data w)\<rparr>"

definition ConcreteStrategyB :: Strategy where
  "ConcreteStrategyB = \<lparr>doAlgorithm = (\<lambda>data w. Array_reverse data w)\<rparr>"

text \<open>
  A field of an object is a slot that holds \<open>undefined\<close> (\<open>None\<close>) until it is
  assigned. The constructor of \<open>Context\<close> assigns \<open>strategy\<close>.
\<close>

record Context =
  strategy :: "Strategy option"

definition Context_new :: "Strategy \<Rightarrow> Context" where
  "Context_new s = \<lparr>strategy = Some s\<rparr>"

definition setStrategy :: "Context \<Rightarrow> Strategy \<Rightarrow> Context" where
  "setStrategy this s = this\<lparr>strategy := Some s\<rparr>"

definition doSomeBusinessLogic ::
  "Context \<Rightarrow> string world \<Rightarrow> (error + unit) \<times> string world" where
  "doSomeBusinessLogic this w =
     (let w1 = console_log
                 ''Context: Sorting data using the strategy (not sure how it'll do it)'' w
      in case strategy this of
           None \<Rightarrow> (Inl TypeError, w1)
         | Some s \<Rightarrow>
             (let (data, w2) = alloc [''a'', ''b'', ''c'', ''d'', ''e''] w1;
                  (result, w3) = doAlgorithm s data w2
              in (Inr (), console_log (Array_join '','' (arrays w3 result)) w3)))"

definition strategy_abstractExample :: "string world \<Rightarrow> (error + unit) \<times> string world" where
  "strategy_abstractExample w =
     (let context = Context_new ConcreteStrategyA;
          w1 = console_log ''Client: Strategy is set to normal sorting.'' w
      in case doSomeBusinessLogic context w1 of
           (Inl e, w2) \<Rightarrow> (Inl e, w2)
         | (Inr u, w2) \<Rightarrow>
             (let w3 = console_log '''' w2;
                  w4 = console_log ''Client: Strategy is set to reverse sorting.'' w3;
                  context' = setStrategy context ConcreteStrategyB
              in doSomeBusinessLogic context' w4))"


section \<open>Strategy: the payment example\<close>

text \<open>
  The payment example and the abstract command example only write to the console, so
  their state is the list of lines written so far.
\<close>

definition log_line :: "string \<Rightarrow> string list \<Rightarrow> string list" where
  "log_line line out = out @ [line]"

text \<open>
  An amount is a \<open>number\<close>. Its values are left open as the type \<open>'n\<close>, and the
  conversion that a template literal applies to print one is a parameter of the
  strategies that print it.
\<close>

record 'n PaymentStrategy =
  pay :: "'n \<Rightarrow> string list \<Rightarrow> string list"

definition CreditCardStrategy :: "('n \<Rightarrow> string) \<Rightarrow> 'n PaymentStrategy" where
  "CreditCardStrategy Number_toString =
     \<lparr>pay = (\<lambda>amount out.
        log_line (''Paid '' @ Number_toString amount @ '' using credit card.'') out)\<rparr>"

definition PayPalStrategy :: "('n \<Rightarrow> string) \<Rightarrow> 'n PaymentStrategy" where
  "PayPalStrategy Number_toString =
     \<lparr>pay = (\<lambda>amount out.
        log_line (''Paid '' @ Number_toString amount @ '' using PayPal.'') out)\<rparr>"

record 'n Item =
  price :: 'n
  paymentStrategy :: "'n PaymentStrategy option"

definition Item_new :: "'n \<Rightarrow> 'n PaymentStrategy \<Rightarrow> 'n Item" where
  "Item_new p s = \<lparr>price = p, paymentStrategy = Some s\<rparr>"

definition buy :: "'n Item \<Rightarrow> string list \<Rightarrow> (error + unit) \<times> string list" where
  "buy this out =
     (case paymentStrategy this of
        None \<Rightarrow> (Inl TypeError, out)
      | Some s \<Rightarrow> (Inr (), pay s (price this) out))"


section \<open>Command: the abstract example\<close>

datatype Receiver = Receiver_new

definition doSomething :: "Receiver \<Rightarrow> string \<Rightarrow> string list \<Rightarrow> string list" where
  "doSomething this a out = log_line (''Receiver: Working on ('' @ a @ ''.)'') out"

definition doSomethingElse :: "Receiver \<Rightarrow> string \<Rightarrow> string list \<Rightarrow> string list" where
  "doSomethingElse this b out = log_line (''Receiver: Also working on ('' @ b @ ''.)'') out"

record Command =
  execute :: "string list \<Rightarrow> string list"

definition SimpleCommand :: "string \<Rightarrow> Command" where
  "SimpleCommand payload =
     \<lparr>execute = (\<lambda>out.
        log_line (''SimpleCommand: See, I can do simple things like printing (''
                  @ payload @ '')'') out)\<rparr>"

definition ComplexCommand :: "Receiver \<Rightarrow> string \<Rightarrow> string \<Rightarrow> Command" where
  "ComplexCommand receiver a b =
     \<lparr>execute = (\<lambda>out.
        let out1 = log_line
                     ''ComplexCommand: Complex stuff should be done by a receiver object.'' out;
            out2 = doSomething receiver a out1
        in doSomethingElse receiver b out2)\<rparr>"

text \<open>
  \<open>Invoker\<close> declares no constructor and no initialiser: both fields are
  \<open>undefined\<close> until their setter is called.
\<close>

record Invoker =
  onStart :: "Command option"
  onFinish :: "Command option"

definition Invoker_new :: Invoker where
  "Invoker_new = \<lparr>onStart = None, onFinish = None\<rparr>"

definition setOnStart :: "Invoker \<Rightarrow> Command \<Rightarrow> Invoker" where
  "setOnStart this command = this\<lparr>onStart := Some command\<rparr>"

definition setOnFinish :: "Invoker \<Rightarrow> Command \<Rightarrow> Invoker" where
  "setOnFinish this command = this\<lparr>onFinish := Some command\<rparr>"

text \<open>
  \<open>isCommand\<close> evaluates \<open>object.execute !== undefined\<close>. Reading a property of
  \<open>undefined\<close> throws a \<open>TypeError\<close>; an object of type \<open>Command\<close> has the member,
  and the comparison is true.
\<close>

definition isCommand :: "Command option \<Rightarrow> error + bool" where
  "isCommand object = (case object of None \<Rightarrow> Inl TypeError | Some c \<Rightarrow> Inr True)"

definition call_execute :: "Command option \<Rightarrow> string list \<Rightarrow> (error + unit) \<times> string list" where
  "call_execute object out =
     (case object of None \<Rightarrow> (Inl TypeError, out) | Some c \<Rightarrow> (Inr (), execute c out))"

definition doSomethingImportant :: "Invoker \<Rightarrow> string list \<Rightarrow> (error + unit) \<times> string list" where
  "doSomethingImportant this out =
     (let out1 = log_line ''Invoker: Does anybody want something done before I begin?'' out
      in case isCommand (onStart this) of
           Inl e \<Rightarrow> (Inl e, out1)
         | Inr b \<Rightarrow>
             (case (if b then call_execute (onStart this) out1 else (Inr (), out1)) of
                (Inl e, out2) \<Rightarrow> (Inl e, out2)
              | (Inr u, out2) \<Rightarrow>
                  (let out3 = log_line ''Invoker: ...doing something really important...'' out2;
                       out4 = log_line
                                ''Invoker: Does anybody want something done after I finish?'' out3
                   in case isCommand (onFinish this) of
                        Inl e \<Rightarrow> (Inl e, out4)
                      | Inr b' \<Rightarrow>
                          (if b' then call_execute (onFinish this) out4 else (Inr (), out4)))))"

definition command_abstractExample :: "string list \<Rightarrow> (error + unit) \<times> string list" where
  "command_abstractExample out =
     (let invoker = Invoker_new;
          invoker1 = setOnStart invoker (SimpleCommand ''Say Hi!'');
          receiver = Receiver_new;
          invoker2 = setOnFinish invoker1 (ComplexCommand receiver ''Send email'' ''Save report'')
      in doSomethingImportant invoker2 out)"


section \<open>Command: the order example\<close>

text \<open>
  The manager owns one array of orders and hands its reference to every command.
  The abstract class \<open>Command\<close> of this example is named \<open>OrderCommand\<close> here, and
  its method \<open>execute_on\<close>; the rest arguments are never passed nor read.
\<close>

record Order =
  order_id :: string

record OrderManager =
  orders :: addr

definition OrderManager_new :: "Order world \<Rightarrow> OrderManager \<times> Order world" where
  "OrderManager_new w = (let (a, w1) = alloc [] w in (\<lparr>orders = a\<rparr>, w1))"

record OrderCommand =
  execute_on :: "addr \<Rightarrow> Order world \<Rightarrow> Order world"

definition OrderManager_execute :: "OrderManager \<Rightarrow> OrderCommand \<Rightarrow> Order world \<Rightarrow> Order world" where
  "OrderManager_execute this command w = execute_on command (orders this) w"

definition PlaceOrderCommand :: "string \<Rightarrow> string \<Rightarrow> OrderCommand" where
  "PlaceOrderCommand order' id' =
     \<lparr>execute_on = (\<lambda>orders' w.
        let w1 = Array_push orders' \<lparr>order_id = id'\<rparr> w
        in console_log (''You have successfully ordered '' @ order' @ '' ('' @ id' @ '')'') w1)\<rparr>"

text \<open>
  \<open>filter\<close> builds a new array, and the assignment rebinds the parameter
  \<open>orders\<close>, a local variable of \<open>execute\<close>, to it. Nothing reads it afterwards.
\<close>

definition CancelOrderCommand :: "string \<Rightarrow> OrderCommand" where
  "CancelOrderCommand id' =
     \<lparr>execute_on = (\<lambda>orders' w.
        let (orders'', w1) = Array_filter orders' (\<lambda>order'. order_id order' \<noteq> id') w
        in console_log (''You have canceled your order '' @ id') w1)\<rparr>"

definition TrackOrderCommand :: "string \<Rightarrow> OrderCommand" where
  "TrackOrderCommand id' =
     \<lparr>execute_on = (\<lambda>orders' w.
        console_log (''Your order '' @ id' @ '' will arrive in 20 minutes.'') w)\<rparr>"

definition command_concreteExample :: "Order world \<Rightarrow> OrderManager \<times> Order world" where
  "command_concreteExample w =
     (let (manager, w0) = OrderManager_new w;
          w1 = OrderManager_execute manager (PlaceOrderCommand ''Pad Thai'' ''1234'') w0;
          w2 = OrderManager_execute manager (TrackOrderCommand ''1234'') w1;
          w3 = OrderManager_execute manager (CancelOrderCommand ''1234'') w2
      in (manager, w3))"


section \<open>Abstract Factory: the abstract example\<close>

text \<open>
  The products carry no state; an object is identified by its class.
\<close>

datatype AbstractProductA = ConcreteProductA1 | ConcreteProductA2

datatype AbstractProductB = ConcreteProductB1 | ConcreteProductB2

datatype AbstractFactory = ConcreteFactory1 | ConcreteFactory2

fun createProductA :: "AbstractFactory \<Rightarrow> AbstractProductA" where
  "createProductA ConcreteFactory1 = ConcreteProductA1"
| "createProductA ConcreteFactory2 = ConcreteProductA2"

fun createProductB :: "AbstractFactory \<Rightarrow> AbstractProductB" where
  "createProductB ConcreteFactory1 = ConcreteProductB1"
| "createProductB ConcreteFactory2 = ConcreteProductB2"

fun usefulFunctionA :: "AbstractProductA \<Rightarrow> string" where
  "usefulFunctionA ConcreteProductA1 = ''The result of the product A1.''"
| "usefulFunctionA ConcreteProductA2 = ''The result of the product A2.''"

fun usefulFunctionB :: "AbstractProductB \<Rightarrow> string" where
  "usefulFunctionB ConcreteProductB1 = ''The result of the product B1.''"
| "usefulFunctionB ConcreteProductB2 = ''The result of the product B2.''"

fun anotherUsefulFunctionB :: "AbstractProductB \<Rightarrow> AbstractProductA \<Rightarrow> string" where
  "anotherUsefulFunctionB ConcreteProductB1 collaborator =
     (let result = usefulFunctionA collaborator
      in ''The result of the B1 collaborating with the ('' @ result @ '')'')"
| "anotherUsefulFunctionB ConcreteProductB2 collaborator =
     (let result = usefulFunctionA collaborator
      in ''The result of the B2 collaborating with the ('' @ result @ '')'')"

definition clientCode :: "AbstractFactory \<Rightarrow> string list \<Rightarrow> string list" where
  "clientCode factory out =
     (let productA = createProductA factory;
          productB = createProductB factory;
          out1 = log_line (usefulFunctionB productB) out
      in log_line (anotherUsefulFunctionB productB productA) out1)"

definition factory_abstractExample :: "string list \<Rightarrow> string list" where
  "factory_abstractExample out =
     (let out1 = log_line ''Client: Testing client code with the first factory type...'' out;
          out2 = clientCode ConcreteFactory1 out1;
          out3 = log_line '''' out2;
          out4 = log_line
                   ''Client: Testing the same client code with the second factory type...'' out3
      in clientCode ConcreteFactory2 out4)"

section \<open>Program start and call histories\<close>

text \<open>
  At program start nothing is allocated and nothing has been printed.
\<close>

definition world_init :: "'a world" where
  "world_init = \<lparr>arrays = (\<lambda>a. []), fresh = 0, console = []\<rparr>"

text \<open>
  A caller that keeps its own reference to an array before handing it to a strategy:
  \<open>const xs = ["b", "a"]\<close> as the first allocation of a program.
\<close>

definition retained_input :: "string world" where
  "retained_input = snd (alloc [''b'', ''a''] world_init)"

text \<open>
  The calls that can change an \<open>Invoker\<close>, for statements about every history.
\<close>

datatype InvokerCall = SetOnStart Command | SetOnFinish Command

fun Invoker_call :: "Invoker \<Rightarrow> InvokerCall \<Rightarrow> Invoker" where
  "Invoker_call this (SetOnStart command) = setOnStart this command"
| "Invoker_call this (SetOnFinish command) = setOnFinish this command"


section \<open>Facts about the run-time pieces\<close>

text \<open>
  The comparison of \<open>sort\<close> is the lexicographic order on strings over the order of
  the code units, so the insertion sort above is the library's \<open>sort\<close>.
\<close>

lemma IsLessThan_less: "IsLessThan x y \<longleftrightarrow> x < y"
  by (induction x y rule: IsLessThan.induct) (auto simp: less_char_def)

lemma SortCompare_le: "SortCompare x y \<le> 0 \<longleftrightarrow> x \<le> y"
  by (auto simp: SortCompare_def IsLessThan_less)

lemma insert_sorted_insort: "insert_sorted x ys = insort x ys"
  by (induction ys) (simp_all add: SortCompare_le)

lemma sort_strings_sort: "sort_strings xs = sort xs"
  by (induction xs) (simp_all add: sort_strings_def insert_sorted_insort)

lemma sorted_wrt_SortCompare:
  "sorted_wrt (\<lambda>x y. SortCompare x y \<le> 0) xs \<longleftrightarrow> sorted xs"
  by (simp add: SortCompare_le)

lemma sort_strings_fixpoint:
  "sort_strings xs = xs \<longleftrightarrow> sorted_wrt (\<lambda>x y. SortCompare x y \<le> 0) xs"
  by (metis sort_strings_sort sorted_wrt_SortCompare sorted_sort sorted_sort_id)

lemma sort_strings_sorted: "sorted_wrt (\<lambda>x y. SortCompare x y \<le> 0) (sort_strings xs)"
  by (simp add: sort_strings_sort sorted_wrt_SortCompare)

lemma sort_strings_mset: "mset (sort_strings xs) = mset xs"
  by (simp add: sort_strings_sort)

lemma sort_abcde:
  "sort_strings [''a'', ''b'', ''c'', ''d'', ''e''] = [''a'', ''b'', ''c'', ''d'', ''e'']"
  by (simp add: sort_strings_def SortCompare_def)

lemma foldl_setStrategy:
  "strategy (foldl setStrategy c ss) = (if ss = [] then strategy c else Some (last ss))"
  by (induction ss arbitrary: c) (auto simp: setStrategy_def)

lemma onStart_calls:
  "onStart c \<noteq> None \<Longrightarrow> onStart (foldl Invoker_call c cs) \<noteq> None"
proof (induction cs arbitrary: c)
  case Nil
  then show ?case by simp
next
  case (Cons x xs)
  have "onStart (Invoker_call c x) \<noteq> None"
    using Cons.prems by (cases x) (simp_all add: setOnStart_def setOnFinish_def)
  then show ?case using Cons.IH by simp
qed

lemma onFinish_calls:
  "onFinish c \<noteq> None \<Longrightarrow> onFinish (foldl Invoker_call c cs) \<noteq> None"
proof (induction cs arbitrary: c)
  case Nil
  then show ?case by simp
next
  case (Cons x xs)
  have "onFinish (Invoker_call c x) \<noteq> None"
    using Cons.prems by (cases x) (simp_all add: setOnStart_def setOnFinish_def)
  then show ?case using Cons.IH by simp
qed


section \<open>The strategies and the array they are given\<close>

text \<open>
  C1, as stated, fails. A caller allocates \<open>["b", "a"]\<close>, keeps the reference (address
  \<open>0\<close>) and passes it to a strategy. \<open>ConcreteStrategyA\<close> returns the very same
  reference, and the caller's array now reads \<open>["a", "b"]\<close>; \<open>ConcreteStrategyB\<close>
  likewise leaves \<open>["a", "b"]\<close> in the caller's array. The contents have changed.
\<close>

theorem C1_input_is_mutated:
  "arrays retained_input 0 = [''b'', ''a'']
   \<and> fst (doAlgorithm ConcreteStrategyA 0 retained_input) = 0
   \<and> arrays (snd (doAlgorithm ConcreteStrategyA 0 retained_input)) 0 = [''a'', ''b'']
   \<and> arrays (snd (doAlgorithm ConcreteStrategyA 0 retained_input)) 0 \<noteq> arrays retained_input 0
   \<and> fst (doAlgorithm ConcreteStrategyB 0 retained_input) = 0
   \<and> arrays (snd (doAlgorithm ConcreteStrategyB 0 retained_input)) 0 = [''a'', ''b'']
   \<and> arrays (snd (doAlgorithm ConcreteStrategyB 0 retained_input)) 0 \<noteq> arrays retained_input 0"
  by (simp add: ConcreteStrategyA_def ConcreteStrategyB_def Array_sort_def Array_reverse_def
      retained_input_def alloc_def world_init_def sort_strings_def SortCompare_def)

text \<open>
  C1, amended. Both strategies work in place and return the reference they were given.
  After \<open>ConcreteStrategyA.doAlgorithm\<close> the given array holds the same elements in
  ascending order, and its contents are unchanged exactly when they were already in
  ascending order. After \<open>ConcreteStrategyB.doAlgorithm\<close> the given array holds its
  former contents reversed. Every other array, the allocation pointer and the console are
  left as they were.
\<close>

theorem C1_strategies_work_in_place:
  "fst (doAlgorithm ConcreteStrategyA a w) = a
   \<and> mset (arrays (snd (doAlgorithm ConcreteStrategyA a w)) a) = mset (arrays w a)
   \<and> sorted_wrt (\<lambda>x y. SortCompare x y \<le> 0)
        (arrays (snd (doAlgorithm ConcreteStrategyA a w)) a)
   \<and> (arrays (snd (doAlgorithm ConcreteStrategyA a w)) a = arrays w a
        \<longleftrightarrow> sorted_wrt (\<lambda>x y. SortCompare x y \<le> 0) (arrays w a))
   \<and> (\<forall>b. b \<noteq> a \<longrightarrow> arrays (snd (doAlgorithm ConcreteStrategyA a w)) b = arrays w b)
   \<and> fresh (snd (doAlgorithm ConcreteStrategyA a w)) = fresh w
   \<and> console (snd (doAlgorithm ConcreteStrategyA a w)) = console w
   \<and> fst (doAlgorithm ConcreteStrategyB a w) = a
   \<and> arrays (snd (doAlgorithm ConcreteStrategyB a w)) a = rev (arrays w a)
   \<and> (\<forall>b. b \<noteq> a \<longrightarrow> arrays (snd (doAlgorithm ConcreteStrategyB a w)) b = arrays w b)
   \<and> fresh (snd (doAlgorithm ConcreteStrategyB a w)) = fresh w
   \<and> console (snd (doAlgorithm ConcreteStrategyB a w)) = console w"
  by (simp add: ConcreteStrategyA_def ConcreteStrategyB_def Array_sort_def Array_reverse_def
      sort_strings_mset sort_strings_sorted sort_strings_fixpoint)

theorem C1_strategies_work_in_place_witness:
  "(1::nat) \<noteq> 0
   \<and> arrays (snd (doAlgorithm ConcreteStrategyA 0 retained_input)) 1 = arrays retained_input 1
   \<and> arrays (snd (doAlgorithm ConcreteStrategyB 0 retained_input)) 1 = arrays retained_input 1
   \<and> arrays (snd (doAlgorithm ConcreteStrategyB 0 retained_input)) 0
       = rev (arrays retained_input 0)"
  using C1_strategies_work_in_place [of 0 retained_input] by simp


section \<open>The context and its strategy\<close>

text \<open>
  C5. On the fixed input \<open>["a", "b", "c", "d", "e"]\<close> that \<open>doSomeBusinessLogic\<close>
  builds, \<open>ConcreteStrategyA\<close> returns \<open>["a", "b", "c", "d", "e"]\<close> and
  \<open>ConcreteStrategyB\<close> returns \<open>["e", "d", "c", "b", "a"]\<close>; the call completes and
  prints, after the narration line, \<open>a,b,c,d,e\<close> under \<open>ConcreteStrategyA\<close> and
  \<open>e,d,c,b,a\<close> under \<open>ConcreteStrategyB\<close>.
\<close>

theorem C5_fixed_input_results:
  "fst (doSomeBusinessLogic (Context_new ConcreteStrategyA) w) = Inr ()
   \<and> console (snd (doSomeBusinessLogic (Context_new ConcreteStrategyA) w))
       = console w @ [''Context: Sorting data using the strategy (not sure how it'll do it)'',
                      ''a,b,c,d,e'']
   \<and> fst (doSomeBusinessLogic (Context_new ConcreteStrategyB) w) = Inr ()
   \<and> console (snd (doSomeBusinessLogic (Context_new ConcreteStrategyB) w))
       = console w @ [''Context: Sorting data using the strategy (not sure how it'll do it)'',
                      ''e,d,c,b,a'']
   \<and> arrays (snd (doAlgorithm ConcreteStrategyA
         (fst (alloc [''a'', ''b'', ''c'', ''d'', ''e''] w))
         (snd (alloc [''a'', ''b'', ''c'', ''d'', ''e''] w))))
       (fst (doAlgorithm ConcreteStrategyA
         (fst (alloc [''a'', ''b'', ''c'', ''d'', ''e''] w))
         (snd (alloc [''a'', ''b'', ''c'', ''d'', ''e''] w))))
       = [''a'', ''b'', ''c'', ''d'', ''e'']
   \<and> arrays (snd (doAlgorithm ConcreteStrategyB
         (fst (alloc [''a'', ''b'', ''c'', ''d'', ''e''] w))
         (snd (alloc [''a'', ''b'', ''c'', ''d'', ''e''] w))))
       (fst (doAlgorithm ConcreteStrategyB
         (fst (alloc [''a'', ''b'', ''c'', ''d'', ''e''] w))
         (snd (alloc [''a'', ''b'', ''c'', ''d'', ''e''] w))))
       = [''e'', ''d'', ''c'', ''b'', ''a'']"
  by (simp add: doSomeBusinessLogic_def Context_new_def ConcreteStrategyA_def
      ConcreteStrategyB_def Array_sort_def Array_reverse_def alloc_def console_log_def
      sort_abcde)

text \<open>
  C6. For all strategies \<open>A\<close> and \<open>B\<close>, a context constructed with \<open>A\<close> and then
  given \<open>setStrategy(B)\<close> is the context constructed with \<open>B\<close>: a later
  \<open>doSomeBusinessLogic\<close> hands its fresh input to \<open>B\<close> and prints what \<open>B\<close>
  returned, and \<open>A\<close> takes no part in it. In the driver, the lines after the rebinding
  are those of the reverse strategy.
\<close>

theorem C6_rebinding_replaces_strategy:
  "setStrategy (Context_new A) B = Context_new B
   \<and> doSomeBusinessLogic (setStrategy (Context_new A) B) w
       = doSomeBusinessLogic (Context_new B) w
   \<and> doSomeBusinessLogic (setStrategy (Context_new A) B) w
       = (let w1 = console_log
                 ''Context: Sorting data using the strategy (not sure how it'll do it)'' w;
              (data, w2) = alloc [''a'', ''b'', ''c'', ''d'', ''e''] w1;
              (result, w3) = doAlgorithm B data w2
          in (Inr (), console_log (Array_join '','' (arrays w3 result)) w3))
   \<and> console (snd (strategy_abstractExample w))
       = console w @
         [''Client: Strategy is set to normal sorting.'',
          ''Context: Sorting data using the strategy (not sure how it'll do it)'',
          ''a,b,c,d,e'',
          '''',
          ''Client: Strategy is set to reverse sorting.'',
          ''Context: Sorting data using the strategy (not sure how it'll do it)'',
          ''e,d,c,b,a'']"
  by (simp add: strategy_abstractExample_def doSomeBusinessLogic_def Context_new_def
      setStrategy_def ConcreteStrategyA_def ConcreteStrategyB_def Array_sort_def
      Array_reverse_def alloc_def console_log_def sort_abcde)


section \<open>What a composer holds\<close>

text \<open>
  C4, as stated, fails for \<open>Invoker\<close>: once its construction has completed, both of
  its command references are unbound.
\<close>

theorem C4_new_invoker_is_unbound:
  "onStart Invoker_new = None \<and> onFinish Invoker_new = None"
  by (simp add: Invoker_new_def)

text \<open>
  C4, amended. A \<open>Context\<close> holds one strategy from its construction on, and after
  any sequence of \<open>setStrategy\<close> calls it holds the strategy bound last; an \<open>Item\<close>
  holds the payment strategy its constructor was given. An \<open>Invoker\<close> holds two
  command references, both unbound after construction; a setter binds its own reference
  and leaves the other as it was, and a reference that has been bound is bound after
  every later sequence of setter calls. An \<open>OrderManager\<close> holds no command: its state
  is the reference to its orders array.
\<close>

theorem C4_composer_bindings:
  "strategy (foldl setStrategy (Context_new s) ss) = Some (last (s # ss))
   \<and> paymentStrategy (Item_new p ps) = Some ps
   \<and> onStart Invoker_new = None \<and> onFinish Invoker_new = None
   \<and> onStart (setOnStart invoker c) = Some c
   \<and> onFinish (setOnStart invoker c) = onFinish invoker
   \<and> onFinish (setOnFinish invoker c) = Some c
   \<and> onStart (setOnFinish invoker c) = onStart invoker
   \<and> onStart (foldl Invoker_call (setOnStart invoker c) cs) \<noteq> None
   \<and> onFinish (foldl Invoker_call (setOnFinish invoker c) cs) \<noteq> None
   \<and> (m :: OrderManager) = \<lparr>orders = orders m\<rparr>"
proof -
  have 1: "strategy (foldl setStrategy (Context_new s) ss) = Some (last (s # ss))"
    by (simp add: foldl_setStrategy Context_new_def)
  have 2: "onStart (foldl Invoker_call (setOnStart invoker c) cs) \<noteq> None"
    by (rule onStart_calls) (simp add: setOnStart_def)
  have 3: "onFinish (foldl Invoker_call (setOnFinish invoker c) cs) \<noteq> None"
    by (rule onFinish_calls) (simp add: setOnFinish_def)
  show ?thesis
    using 1 2 3 by (simp add: Item_new_def Invoker_new_def setOnStart_def setOnFinish_def)
qed


section \<open>The invoker without its commands\<close>



text \<open>
  C10. If \<open>onStart\<close> is bound to a command and \<open>onFinish\<close> is unbound,
  \<open>doSomethingImportant\<close> prints its first line, runs the \<open>onStart\<close> command, prints
  the two narration lines that follow, and only then throws a \<open>TypeError\<close> at the
  check of \<open>onFinish\<close>. Everything done before the failure stays on the console.
\<close>

theorem C10_failure_after_effects:
  assumes "onStart invoker = Some c" and "onFinish invoker = None"
  shows "doSomethingImportant invoker out
     = (Inl TypeError,
        execute c (out @ [''Invoker: Does anybody want something done before I begin?''])
          @ [''Invoker: ...doing something really important...'',
             ''Invoker: Does anybody want something done after I finish?''])"
  using assms
  by (simp add: doSomethingImportant_def isCommand_def call_execute_def log_line_def)

theorem C10_failure_after_effects_witness:
  "onStart (setOnStart Invoker_new (SimpleCommand ''Say Hi!'')) = Some (SimpleCommand ''Say Hi!'')
   \<and> onFinish (setOnStart Invoker_new (SimpleCommand ''Say Hi!'')) = None
   \<and> doSomethingImportant (setOnStart Invoker_new (SimpleCommand ''Say Hi!'')) []
     = (Inl TypeError,
        [''Invoker: Does anybody want something done before I begin?'',
         ''SimpleCommand: See, I can do simple things like printing (Say Hi!)'',
         ''Invoker: ...doing something really important...'',
         ''Invoker: Does anybody want something done after I finish?''])"
proof -
  have s: "onStart (setOnStart Invoker_new (SimpleCommand ''Say Hi!''))
             = Some (SimpleCommand ''Say Hi!'')"
    by (simp add: setOnStart_def)
  have f: "onFinish (setOnStart Invoker_new (SimpleCommand ''Say Hi!'')) = None"
    by (simp add: setOnStart_def Invoker_new_def)
  from C10_failure_after_effects [OF s f, of "[]"] s f show ?thesis
    by (simp add: SimpleCommand_def log_line_def)
qed


section \<open>The order manager and its commands\<close>

text \<open>
  C2. Executing \<open>CancelOrderCommand(id)\<close> through the manager leaves the manager's
  orders array as it was: the filtered array is a new one that only the command's local
  variable refers to. The message \<open>You have canceled your order <id>\<close> is printed all
  the same, and an order placed with that id before is still in the manager's array
  afterwards. The manager's array is one that has been allocated.
\<close>

theorem C2_cancel_leaves_orders:
  assumes "orders m < fresh w"
  shows "arrays (OrderManager_execute m (CancelOrderCommand i) w) (orders m)
           = arrays w (orders m)
    \<and> console (OrderManager_execute m (CancelOrderCommand i) w)
        = console w @ [''You have canceled your order '' @ i]
    \<and> \<lparr>order_id = i\<rparr> \<in> set (arrays
          (OrderManager_execute m (CancelOrderCommand i)
             (OrderManager_execute m (PlaceOrderCommand food i) w)) (orders m))"
  using assms
  by (simp add: OrderManager_execute_def CancelOrderCommand_def PlaceOrderCommand_def
      Array_filter_def Array_push_def alloc_def console_log_def)

theorem C2_cancel_leaves_orders_witness:
  "orders (fst (OrderManager_new world_init)) < fresh (snd (OrderManager_new world_init))
   \<and> arrays (OrderManager_execute (fst (OrderManager_new world_init))
        (CancelOrderCommand ''1234'')
        (OrderManager_execute (fst (OrderManager_new world_init))
           (PlaceOrderCommand ''Pad Thai'' ''1234'') (snd (OrderManager_new world_init))))
        (orders (fst (OrderManager_new world_init)))
      = [\<lparr>order_id = ''1234''\<rparr>]"
proof -
  have h: "orders (fst (OrderManager_new world_init))
             < fresh (snd (OrderManager_new world_init) :: Order world)"
    by (simp add: OrderManager_new_def alloc_def world_init_def)
  have p: "arrays (OrderManager_execute (fst (OrderManager_new world_init))
           (PlaceOrderCommand ''Pad Thai'' ''1234'') (snd (OrderManager_new world_init)))
           (orders (fst (OrderManager_new world_init))) = [\<lparr>order_id = ''1234''\<rparr>]"
    by (simp add: OrderManager_new_def alloc_def world_init_def OrderManager_execute_def
        PlaceOrderCommand_def Array_push_def console_log_def)
  have h': "orders (fst (OrderManager_new world_init))
      < fresh (OrderManager_execute (fst (OrderManager_new world_init))
           (PlaceOrderCommand ''Pad Thai'' ''1234'') (snd (OrderManager_new world_init)))"
    by (simp add: OrderManager_new_def alloc_def world_init_def OrderManager_execute_def
        PlaceOrderCommand_def Array_push_def console_log_def)
  from C2_cancel_leaves_orders [OF h', of "''1234''"] p h show ?thesis by simp
qed

text \<open>
  C8. Each command executed through the manager appends its one message to the console
  and returns; issued in the order place, track, cancel for order \<open>1234\<close>, the three
  messages appear in exactly that order, with nothing between them.
\<close>

theorem C8_messages_in_order_issued:
  "console (OrderManager_execute m (PlaceOrderCommand food i) w)
     = console w @ [''You have successfully ordered '' @ food @ '' ('' @ i @ '')'']
   \<and> console (OrderManager_execute m (TrackOrderCommand i) w)
     = console w @ [''Your order '' @ i @ '' will arrive in 20 minutes.'']
   \<and> console (OrderManager_execute m (CancelOrderCommand i) w)
     = console w @ [''You have canceled your order '' @ i]
   \<and> console (snd (command_concreteExample w))
     = console w @ [''You have successfully ordered Pad Thai (1234)'',
                    ''Your order 1234 will arrive in 20 minutes.'',
                    ''You have canceled your order 1234'']"
  by (simp add: command_concreteExample_def OrderManager_new_def OrderManager_execute_def
      PlaceOrderCommand_def TrackOrderCommand_def CancelOrderCommand_def
      Array_push_def Array_filter_def alloc_def console_log_def)

text \<open>
  C9. For every id, every manager and every state, \<open>TrackOrderCommand(id)\<close> prints
  exactly \<open>Your order <id> will arrive in 20 minutes.\<close> and touches nothing else.
  Replacing the contents of all arrays does not change what is printed, and the same
  line is printed after the order was placed and after it was cancelled.
\<close>

theorem C9_tracking_ignores_orders:
  "console (OrderManager_execute m (TrackOrderCommand i) w)
     = console w @ [''Your order '' @ i @ '' will arrive in 20 minutes.'']
   \<and> console (OrderManager_execute m (TrackOrderCommand i) (w\<lparr>arrays := arr\<rparr>))
     = console (OrderManager_execute m (TrackOrderCommand i) w)
   \<and> arrays (OrderManager_execute m (TrackOrderCommand i) w) = arrays w
   \<and> fresh (OrderManager_execute m (TrackOrderCommand i) w) = fresh w
   \<and> console (OrderManager_execute m (TrackOrderCommand i)
        (OrderManager_execute m (PlaceOrderCommand food i) w))
     = console (OrderManager_execute m (PlaceOrderCommand food i) w)
         @ [''Your order '' @ i @ '' will arrive in 20 minutes.'']
   \<and> console (OrderManager_execute m (TrackOrderCommand i)
        (OrderManager_execute m (CancelOrderCommand i) w))
     = console (OrderManager_execute m (CancelOrderCommand i) w)
         @ [''Your order '' @ i @ '' will arrive in 20 minutes.'']"
  by (simp add: OrderManager_execute_def TrackOrderCommand_def console_log_def)


section \<open>The product families\<close>

text \<open>
  C7. Each concrete factory creates the two products of its own variant, and
  \<open>anotherUsefulFunctionB\<close> of its product B on its product A returns the text of
  that variant alone: with \<open>ConcreteFactory1\<close> the digit \<open>2\<close> does not occur in it,
  with \<open>ConcreteFactory2\<close> the digit \<open>1\<close> does not. \<open>clientCode\<close> prints that text
  after the line of product B.
\<close>

theorem C7_product_family_consistent:
  "createProductA ConcreteFactory1 = ConcreteProductA1
   \<and> createProductB ConcreteFactory1 = ConcreteProductB1
   \<and> createProductA ConcreteFactory2 = ConcreteProductA2
   \<and> createProductB ConcreteFactory2 = ConcreteProductB2
   \<and> anotherUsefulFunctionB (createProductB ConcreteFactory1) (createProductA ConcreteFactory1)
       = ''The result of the B1 collaborating with the (The result of the product A1.)''
   \<and> anotherUsefulFunctionB (createProductB ConcreteFactory2) (createProductA ConcreteFactory2)
       = ''The result of the B2 collaborating with the (The result of the product A2.)''
   \<and> CHR ''2'' \<notin> set (anotherUsefulFunctionB (createProductB ConcreteFactory1)
                          (createProductA ConcreteFactory1))
   \<and> CHR ''1'' \<notin> set (anotherUsefulFunctionB (createProductB ConcreteFactory2)
                          (createProductA ConcreteFactory2))
   \<and> clientCode ConcreteFactory1 out
       = out @ [''The result of the product B1.'',
                ''The result of the B1 collaborating with the (The result of the product A1.)'']
   \<and> clientCode ConcreteFactory2 out
       = out @ [''The result of the product B2.'',
                ''The result of the B2 collaborating with the (The result of the product A2.)'']"
  by (simp add: clientCode_def log_line_def)

end
